theory Spec2Isabelle
  imports Main
begin

section \<open>Values, documents and the store\<close>

text \<open>
  The two resolver files of the repository are embedded side by side:
  \<^item> variant A is \<^verbatim>\<open>src/library-backend.js\<close> (book counts computed on read, with a
    publish/subscribe channel);
  \<^item> variant B is \<^verbatim>\<open>src/unnamed/part_000\<close> (book counts incremented on write).
  Definitions that end in \<open>A\<close> or \<open>B\<close> embed the resolver of that file; \<open>login\<close>,
  \<open>createUser\<close> and the context function are the same text in both files.

  An ObjectId is generated by the process when a document is constructed
  (\<^verbatim>\<open>new Author(...)\<close>, \<^verbatim>\<open>new Book(...)\<close>); the model draws them from a counter.
\<close>

type_synonym ObjectId = nat

text \<open>A JavaScript number as far as the resolvers use one: \<^verbatim>\<open>undefined + 1\<close> is NaN.\<close>

datatype jsnum = Undefined | NaN | Num int

fun plus_one :: "jsnum \<Rightarrow> jsnum" where
  "plus_one (Num n) = Num (n + 1)"
| "plus_one Undefined = NaN"
| "plus_one NaN = NaN"

text \<open>
  What the \<^verbatim>\<open>author\<close> path of a Book document holds: variant A assigns
  \<^verbatim>\<open>isAuthor._id\<close>, variant B spreads \<^verbatim>\<open>args\<close>, whose \<^verbatim>\<open>author\<close> is the name string.
\<close>

datatype author_ref = RefId ObjectId | RefName string

record Author =
  name :: string
  born :: "int option"
  bookCount :: jsnum
  oid :: ObjectId

record Book =
  title :: string
  published :: int
  author :: author_ref
  genres :: "string list"
  oid :: ObjectId

record User =
  username :: string
  favoriteGenre :: string
  oid :: ObjectId

record store =
  authors :: "Author list"
  books :: "Book list"
  users :: "User list"

text \<open>
  The \<^verbatim>\<open>author\<close> property of a Book as variant A hands it out:
  \<^item> \<open>Stored r\<close>: the stored value, as a query without \<^verbatim>\<open>populate\<close> returns it;
  \<^item> \<open>Populated a\<close>: after \<^verbatim>\<open>populate('author', {name: 1})\<close>, the \<^verbatim>\<open>_id\<close> and the name of
    the referenced Author, or nothing when no Author has that id;
  \<^item> \<open>Overwritten n\<close>: after lines 138-139 of variant A. \<^verbatim>\<open>book.author\<close> is the very ObjectId
    \<^verbatim>\<open>isAuthor._id\<close>; \<^verbatim>\<open>book.author.name = isAuthor.name\<close> attaches the name \<open>n\<close> to it
    and \<^verbatim>\<open>book.author.id = isAuthor._id\<close> replaces its \<^verbatim>\<open>id\<close>, the bytes of the
    identifier, by the object itself: the name can be read, the identifier no longer.
\<close>

datatype author_view =
  Stored author_ref
| Populated "(ObjectId \<times> string) option"
| Overwritten string

record BookView =
  title :: string
  published :: int
  author :: author_view
  genres :: "string list"
  oid :: ObjectId

definition view :: "author_view \<Rightarrow> Book \<Rightarrow> BookView" where
  "view a b =
     \<lparr>BookView.title = Book.title b, published = Book.published b, author = a,
      genres = Book.genres b, oid = Book.oid b\<rparr>"

text \<open>A write that a resolver has issued with a \<^verbatim>\<open>save()\<close> it does not await. An update
  carries the document as the resolver holds it; it sets the one path the resolver
  modified (\<^verbatim>\<open>bookCount\<close>, \<^verbatim>\<open>born\<close>) in the stored document of that \<^verbatim>\<open>_id\<close>.\<close>

datatype pending =
  InsertAuthor Author
| SetBookCount Author
| SetBorn Author
| InsertBook Book

text \<open>The process: the database, the ObjectId counter, what \<^verbatim>\<open>pubsub.publish\<close> was
  given, oldest first (variant B never publishes), and the writes that are in flight,
  oldest first (variant A awaits every save and leaves none).\<close>

record world =
  database :: store
  next_oid :: nat
  pubsub :: "(string \<times> BookView) list"
  in_flight :: "pending list"

definition new_ObjectId :: "world \<Rightarrow> ObjectId \<times> world" where
  "new_ObjectId w = (next_oid w, w\<lparr>next_oid := Suc (next_oid w)\<rparr>)"

section \<open>Errors\<close>

datatype failure =
  ReferenceError string
| TypeError string
| ValidationError string
| JsonWebTokenError

text \<open>The message of a GraphQL error is a literal of the source or \<^verbatim>\<open>error.message\<close> of
  what was caught; the second argument of \<open>UserInputError\<close> is \<^verbatim>\<open>invalidArgs\<close>.\<close>

datatype message = Text string | MessageOf failure

datatype 'a gql_error =
  AuthenticationError string
| UserInputError message "'a option"

section \<open>The data store adapter\<close>

text \<open>
  The Mongoose models (\<^verbatim>\<open>./models/author\<close>, \<^verbatim>\<open>./models/book\<close>, \<^verbatim>\<open>./models/user\<close>) and the
  database behind them are not among the sources, so what they decide is a parameter of
  every resolver:
  \<^item> \<open>author_error ad db a = Some m\<close>: saving \<open>a\<close> into \<open>db\<close> is rejected with message \<open>m\<close>
    (schema validation, a unique index), likewise for books and users;
  \<^item> \<open>ignoreUndefined ad\<close>: whether a filter path whose value is \<^verbatim>\<open>undefined\<close> is left out
    of the query (so that \<^verbatim>\<open>{name: undefined}\<close> selects every document) or sent as
    \<^verbatim>\<open>null\<close> (which selects the documents without that path: none, every Author has a
    name).
\<close>

record adapter =
  author_error :: "store \<Rightarrow> Author \<Rightarrow> string option"
  book_error :: "store \<Rightarrow> Book \<Rightarrow> string option"
  user_error :: "store \<Rightarrow> User \<Rightarrow> string option"
  ignoreUndefined :: bool

text \<open>\<^verbatim>\<open>Author.findOne({ name: n })\<close>; \<open>None\<close> is the filter value \<^verbatim>\<open>undefined\<close>.\<close>

definition Author_findOne :: "adapter \<Rightarrow> store \<Rightarrow> string option \<Rightarrow> Author option" where
  "Author_findOne ad db n =
     (case n of
        Some s \<Rightarrow> find (\<lambda>a. Author.name a = s) (authors db)
      | None \<Rightarrow> if ignoreUndefined ad then find (\<lambda>a. True) (authors db) else None)"

text \<open>\<^verbatim>\<open>Author.find({ name: { $in: v } })\<close>; Mongoose wraps a \<^verbatim>\<open>$in\<close> operand that is not
  an array into one.\<close>

definition Author_find_in :: "store \<Rightarrow> string list \<Rightarrow> Author list" where
  "Author_find_in db ns = filter (\<lambda>a. Author.name a \<in> set ns) (authors db)"

definition User_findOne :: "store \<Rightarrow> string \<Rightarrow> User option" where
  "User_findOne db n = find (\<lambda>u. username u = n) (users db)"


definition Author_findById :: "store \<Rightarrow> ObjectId \<Rightarrow> Author option" where
  "Author_findById db i = find (\<lambda>a. Author.oid a = i) (authors db)"

text \<open>\<^verbatim>\<open>doc.save()\<close> of a document made with \<^verbatim>\<open>new\<close>: an insert.\<close>

definition save_new_Author :: "adapter \<Rightarrow> store \<Rightarrow> Author \<Rightarrow> failure + store" where
  "save_new_Author ad db a =
     (case author_error ad db a of
        Some m \<Rightarrow> Inl (ValidationError m)
      | None \<Rightarrow> Inr (db\<lparr>authors := authors db @ [a]\<rparr>))"

definition save_new_Book :: "adapter \<Rightarrow> store \<Rightarrow> Book \<Rightarrow> failure + store" where
  "save_new_Book ad db b =
     (case book_error ad db b of
        Some m \<Rightarrow> Inl (ValidationError m)
      | None \<Rightarrow> Inr (db\<lparr>books := books db @ [b]\<rparr>))"

definition save_new_User :: "adapter \<Rightarrow> store \<Rightarrow> User \<Rightarrow> failure + store" where
  "save_new_User ad db u =
     (case user_error ad db u of
        Some m \<Rightarrow> Inl (ValidationError m)
      | None \<Rightarrow> Inr (db\<lparr>users := users db @ [u]\<rparr>))"

text \<open>An update of the one document that has the given \<^verbatim>\<open>_id\<close>.\<close>

fun update_first :: "('a \<Rightarrow> bool) \<Rightarrow> ('a \<Rightarrow> 'a) \<Rightarrow> 'a list \<Rightarrow> 'a list" where
  "update_first p f [] = []"
| "update_first p f (x # xs) = (if p x then f x # xs else x # update_first p f xs)"

text \<open>\<^verbatim>\<open>doc.save()\<close> of a document that a query returned: the document is validated and
  the modified path is set in the stored document of that \<^verbatim>\<open>_id\<close>.\<close>

definition save_found_Author ::
  "adapter \<Rightarrow> store \<Rightarrow> Author \<Rightarrow> (Author \<Rightarrow> Author) \<Rightarrow> failure + store" where
  "save_found_Author ad db a set_modified =
     (case author_error ad db a of
        Some m \<Rightarrow> Inl (ValidationError m)
      | None \<Rightarrow>
          Inr (db\<lparr>authors :=
                 update_first (\<lambda>x. Author.oid x = Author.oid a) set_modified (authors db)\<rparr>))"

text \<open>\<^verbatim>\<open>Author.findByIdAndUpdate(id, {name, id, born})\<close>: \<^verbatim>\<open>name\<close> and \<^verbatim>\<open>born\<close> are set
  (\<^verbatim>\<open>id\<close> is no path of the document); update validators are off by default.\<close>

definition Author_findByIdAndUpdate ::
  "store \<Rightarrow> ObjectId \<Rightarrow> string \<Rightarrow> int \<Rightarrow> store" where
  "Author_findByIdAndUpdate db i n b =
     db\<lparr>authors :=
          update_first (\<lambda>x. Author.oid x = i)
            (\<lambda>x. x\<lparr>Author.name := n, born := Some b\<rparr>) (authors db)\<rparr>"

text \<open>
  A \<^verbatim>\<open>save()\<close> whose promise is not awaited: the resolver goes on, and returns, with the
  write in flight. The database is as it was until the write lands; whoever reads the
  store before that does not see it.
\<close>

definition unawaited :: "pending \<Rightarrow> world \<Rightarrow> world" where
  "unawaited wr w = w\<lparr>in_flight := in_flight w @ [wr]\<rparr>"

fun apply_write :: "adapter \<Rightarrow> store \<Rightarrow> pending \<Rightarrow> failure + store" where
  "apply_write ad db (InsertAuthor a) = save_new_Author ad db a"
| "apply_write ad db (SetBookCount a) =
     save_found_Author ad db a (\<lambda>x. x\<lparr>bookCount := bookCount a\<rparr>)"
| "apply_write ad db (SetBorn a) = save_found_Author ad db a (\<lambda>x. x\<lparr>born := born a\<rparr>)"
| "apply_write ad db (InsertBook b) = save_new_Book ad db b"

text \<open>A write in flight lands: when it is rejected, the rejection reaches no handler of
  the resolver that issued it, and the database stays as it was.\<close>

definition land :: "adapter \<Rightarrow> store \<Rightarrow> pending \<Rightarrow> store" where
  "land ad db wr = (case apply_write ad db wr of Inl e \<Rightarrow> db | Inr db' \<Rightarrow> db')"

text \<open>All writes in flight land, in the order in which they were issued. A state in
  which a later operation starts is \<open>settle ad w\<close> when the earlier writes have landed by
  then, and \<open>w\<close> when they have not.\<close>

definition settle :: "adapter \<Rightarrow> world \<Rightarrow> world" where
  "settle ad w = w\<lparr>database := foldl (land ad) (database w) (in_flight w), in_flight := []\<rparr>"

section \<open>Queries\<close>

record allBooks_args =
  author :: "string option"
  genre :: "string option"

text \<open>JavaScript truthiness of an optional string argument and of an array.\<close>

definition truthy :: "string option \<Rightarrow> bool" where
  "truthy v = (case v of None \<Rightarrow> False | Some s \<Rightarrow> s \<noteq> [])"

definition truthy_array :: "'a list \<Rightarrow> bool" where
  "truthy_array xs = True"

definition string_of :: "string option \<Rightarrow> string" where
  "string_of v = (case v of None \<Rightarrow> [] | Some s \<Rightarrow> s)"

text \<open>
  Modelled from the spec: the paths of a Book document (\<^verbatim>\<open>./models/book\<close> is not among
  the sources; spec section 3 and the GraphQL type \<^verbatim>\<open>Book\<close> list title, published, author,
  genres and the id). A query on any other path finds that path in no document.
\<close>

datatype bson = BString string | BInt int | BId ObjectId | BArray "bson list"

definition Book_get :: "string \<Rightarrow> Book \<Rightarrow> bson option" where
  "Book_get p b =
     (if p = ''title'' then Some (BString (Book.title b))
      else if p = ''published'' then Some (BInt (Book.published b))
      else if p = ''author'' then
        Some (case Book.author b of RefId i \<Rightarrow> BId i | RefName s \<Rightarrow> BString s)
      else if p = ''genres'' then Some (BArray (map BString (Book.genres b)))
      else if p = ''_id'' then Some (BId (Book.oid b))
      else None)"

text \<open>\<^verbatim>\<open>{ path: { $in: vs } }\<close>: the value at the path, or one of its elements when it
  is an array, is among \<open>vs\<close>.\<close>

definition in_match :: "bson option \<Rightarrow> bson list \<Rightarrow> bool" where
  "in_match v vs =
     (case v of
        None \<Rightarrow> False
      | Some (BArray xs) \<Rightarrow> list_ex (\<lambda>x. x \<in> set vs) xs
      | Some x \<Rightarrow> x \<in> set vs)"

definition Book_find_in :: "store \<Rightarrow> string \<Rightarrow> bson list \<Rightarrow> Book list" where
  "Book_find_in db p vs = filter (\<lambda>b. in_match (Book_get p b) vs) (books db)"

definition unpopulated :: "Book \<Rightarrow> BookView" where
  "unpopulated b = view (Stored (Book.author b)) b"

text \<open>\<^verbatim>\<open>populate('author', {name: 1})\<close>.\<close>

definition populate :: "store \<Rightarrow> Book \<Rightarrow> BookView" where
  "populate db b =
     view (Populated
             (case Book.author b of
                RefId i \<Rightarrow> map_option (\<lambda>a. (Author.oid a, Author.name a)) (Author_findById db i)
              | RefName s \<Rightarrow> None))
          b"

text \<open>
  \<^verbatim>\<open>allBooks\<close> of variant A (lines 90-100). No \<^verbatim>\<open>books\<close> is declared anywhere in the
  file, so evaluating \<^verbatim>\<open>books.filter\<close> throws a ReferenceError; the genre-only query is on
  the path \<^verbatim>\<open>genre\<close>.
\<close>

definition allBooksA :: "store \<Rightarrow> allBooks_args \<Rightarrow> failure + BookView list" where
  "allBooksA db args =
     (if truthy (allBooks_args.author args) \<and> truthy (genre args) then
        Inl (ReferenceError ''books'')
      else if truthy (allBooks_args.author args) then
        Inl (ReferenceError ''books'')
      else if truthy (genre args) then
        Inr (map unpopulated (Book_find_in db ''genre'' [BString (string_of (genre args))]))
      else Inr (map (populate db) (books db)))"

text \<open>
  \<^verbatim>\<open>allBooks\<close> of variant B (lines 85-95): \<^verbatim>\<open>books\<close> is undeclared here too, and
  \<^verbatim>\<open>Book.inventory\<close> is no property of a model, so \<^verbatim>\<open>Book.inventory.find\<close> throws a
  TypeError.
\<close>

definition allBooksB :: "store \<Rightarrow> allBooks_args \<Rightarrow> failure + Book list" where
  "allBooksB db args =
     (if truthy (allBooks_args.author args) \<and> truthy (genre args) then
        Inl (ReferenceError ''books'')
      else if truthy (allBooks_args.author args) then
        Inl (ReferenceError ''books'')
      else if truthy (genre args) then
        Inl (TypeError ''find'')
      else Inr (books db))"



text \<open>\<^verbatim>\<open>allAuthors\<close> of variant B (line 96): the stored documents.\<close>

definition allAuthorsB :: "store \<Rightarrow> Author list" where
  "allAuthorsB db = authors db"

text \<open>The number of Books whose author reference is the given Author's id.\<close>

definition books_of :: "store \<Rightarrow> Author \<Rightarrow> nat" where
  "books_of db a = length (filter (\<lambda>b. Book.author b = RefId (Author.oid a)) (books db))"

section \<open>Mutations\<close>

record Context =
  currentUser :: "User option"

record addBook_args =
  title :: string
  published :: int
  author :: string
  genres :: "string list"

record editAuthor_args =
  name :: string
  setBornTo :: int

record createUser_args =
  username :: string
  favoriteGenre :: string

record login_args =
  username :: string
  password :: string

text \<open>Lines 124-130 of variant A: the Author of that name, saved first when there is none.\<close>

definition find_or_create_AuthorA ::
  "adapter \<Rightarrow> world \<Rightarrow> addBook_args \<Rightarrow> (failure + Author) \<times> world" where
  "find_or_create_AuthorA ad w args =
     (case Author_findOne ad (database w) (Some (addBook_args.author args)) of
        Some isAuthor \<Rightarrow> (Inr isAuthor, w)
      | None \<Rightarrow>
          (let (i, w1) = new_ObjectId w;
               author = \<lparr>Author.name = addBook_args.author args, born = None,
                         bookCount = Undefined, oid = i\<rparr>
           in case save_new_Author ad (database w1) author of
                Inl e \<Rightarrow> (Inl e, w1)
              | Inr db' \<Rightarrow> (Inr author, w1\<lparr>database := db'\<rparr>)))"

text \<open>\<^verbatim>\<open>addBook\<close> of variant A (lines 119-148). Both saves are awaited inside the
  \<^verbatim>\<open>try\<close>, so a rejection becomes a UserInputError. The Book is saved before lines
  138-139 overwrite its \<^verbatim>\<open>author\<close>, so the stored Book holds the reference; the Book
  returned and published holds the overwritten one.\<close>

definition addBookA ::
  "adapter \<Rightarrow> Context \<Rightarrow> world \<Rightarrow> addBook_args \<Rightarrow> (addBook_args gql_error + BookView) \<times> world" where
  "addBookA ad context w args =
     (if currentUser context = None then (Inl (AuthenticationError ''not authenticated''), w)
      else
        (case find_or_create_AuthorA ad w args of
           (Inl e, w1) \<Rightarrow> (Inl (UserInputError (MessageOf e) (Some args)), w1)
         | (Inr isAuthor, w1) \<Rightarrow>
             (let (j, w2) = new_ObjectId w1;
                  book = \<lparr>Book.title = addBook_args.title args,
                          published = addBook_args.published args,
                          author = RefId (Author.oid isAuthor),
                          genres = addBook_args.genres args,
                          oid = j\<rparr>
              in case save_new_Book ad (database w2) book of
                   Inl e \<Rightarrow> (Inl (UserInputError (MessageOf e) (Some args)), w2)
                 | Inr db' \<Rightarrow>
                     (let returned = view (Overwritten (Author.name isAuthor)) book
                      in (Inr returned,
                          w2\<lparr>database := db',
                             pubsub := pubsub w2 @ [(''BOOK_ADDED'', returned)]\<rparr>)))))"

text \<open>Lines 109-117 of variant B: a new Author starts with \<^verbatim>\<open>bookCount: 1\<close>, a found one
  is incremented; neither \<^verbatim>\<open>save()\<close> is awaited.\<close>

definition count_AuthorB :: "adapter \<Rightarrow> world \<Rightarrow> addBook_args \<Rightarrow> world" where
  "count_AuthorB ad w args =
     (case Author_findOne ad (database w) (Some (addBook_args.author args)) of
        None \<Rightarrow>
          (let (i, w1) = new_ObjectId w;
               author = \<lparr>Author.name = addBook_args.author args, born = None,
                         bookCount = Num 1, oid = i\<rparr>
           in unawaited (InsertAuthor author) w1)
      | Some isAuthor \<Rightarrow>
          (let isAuthor' = isAuthor\<lparr>bookCount := plus_one (bookCount isAuthor)\<rparr>
           in unawaited (SetBookCount isAuthor') w))"

text \<open>\<^verbatim>\<open>addBook\<close> of variant B (lines 102-125). The Book is constructed from
  \<^verbatim>\<open>{ ...args }\<close> before the authentication check; \<^verbatim>\<open>book.save()\<close> is not awaited, so
  the \<^verbatim>\<open>catch\<close> is never entered and the resolver returns the Book it constructed, with
  the saves of lines 113, 116 and 118 in flight. (What the Book model makes of a name on
  its \<^verbatim>\<open>author\<close> path is part of \<open>book_error\<close>.)\<close>

definition addBookB ::
  "adapter \<Rightarrow> Context \<Rightarrow> world \<Rightarrow> addBook_args \<Rightarrow> (addBook_args gql_error + Book) \<times> world" where
  "addBookB ad context w args =
     (let (j, w1) = new_ObjectId w;
          book = \<lparr>Book.title = addBook_args.title args,
                  published = addBook_args.published args,
                  author = RefName (addBook_args.author args),
                  genres = addBook_args.genres args,
                  oid = j\<rparr>
      in if currentUser context = None then
           (Inl (AuthenticationError ''not authenticated''), w1)
         else
           (let w2 = count_AuthorB ad w1 args;
                w3 = unawaited (InsertBook book) w2
            in (Inr book, w3)))"

text \<open>
  \<^verbatim>\<open>editAuthor\<close> of variant A (lines 149-175). \<^verbatim>\<open>Author.find\<close> yields an array, which
  is truthy also when empty; \<^verbatim>\<open>author[0].name\<close> on the empty array throws a TypeError
  inside the \<^verbatim>\<open>try\<close>. After the update the function ends without a \<^verbatim>\<open>return\<close>.
\<close>

definition editAuthorA ::
  "Context \<Rightarrow> world \<Rightarrow> editAuthor_args \<Rightarrow> (editAuthor_args gql_error + Author option) \<times> world" where
  "editAuthorA context w args =
     (if currentUser context = None then (Inl (AuthenticationError ''not authenticated''), w)
      else
        (let author = Author_find_in (database w) [editAuthor_args.name args]
         in if \<not> truthy_array author then (Inr None, w)
            else
              (case author of
                 [] \<Rightarrow> (Inl (UserInputError (MessageOf (TypeError ''name'')) (Some args)), w)
               | a0 # rest \<Rightarrow>
                   (Inr None,
                    w\<lparr>database := Author_findByIdAndUpdate (database w) (Author.oid a0) (Author.name a0)
                               (setBornTo args)\<rparr>))))"

text \<open>\<^verbatim>\<open>args.author\<close> inside \<^verbatim>\<open>editAuthor\<close>: the mutation's arguments are \<^verbatim>\<open>name\<close>
  and \<^verbatim>\<open>setBornTo\<close>, so the property is \<^verbatim>\<open>undefined\<close>.\<close>

definition editAuthor_args_author :: "editAuthor_args \<Rightarrow> string option" where
  "editAuthor_args_author args = None"

text \<open>\<^verbatim>\<open>editAuthor\<close> of variant B (lines 126-144); \<^verbatim>\<open>author.save()\<close> is not awaited.\<close>

definition editAuthorB ::
  "adapter \<Rightarrow> Context \<Rightarrow> world \<Rightarrow> editAuthor_args \<Rightarrow>
     (editAuthor_args gql_error + Author option) \<times> world" where
  "editAuthorB ad context w args =
     (if currentUser context = None then (Inl (AuthenticationError ''not authenticated''), w)
      else
        (case Author_findOne ad (database w) (editAuthor_args_author args) of
           None \<Rightarrow> (Inr None, w)
         | Some found \<Rightarrow>
             (let author' = found\<lparr>born := Some (setBornTo args)\<rparr>
              in (Inr (Some author'), unawaited (SetBorn author') w))))"

text \<open>\<^verbatim>\<open>createUser\<close> (both variants).\<close>

definition createUser ::
  "adapter \<Rightarrow> world \<Rightarrow> createUser_args \<Rightarrow> (createUser_args gql_error + User) \<times> world" where
  "createUser ad w args =
     (let (i, w1) = new_ObjectId w;
          user = \<lparr>User.username = createUser_args.username args,
                  favoriteGenre = createUser_args.favoriteGenre args,
                  oid = i\<rparr>
      in case save_new_User ad (database w1) user of
           Inl e \<Rightarrow> (Inl (UserInputError (MessageOf e) (Some args)), w1)
         | Inr db' \<Rightarrow> (Inr user, w1\<lparr>database := db'\<rparr>))"

section \<open>Tokens, login and the request context\<close>

text \<open>
  \<^verbatim>\<open>jsonwebtoken\<close> is a library and \<^verbatim>\<open>config.SECRET\<close> comes from \<^verbatim>\<open>./utils/config\<close>, which
  is not among the sources: signing, verifying and the secret are parameters.
  \<open>jwt_verify t k = None\<close> stands for \<^verbatim>\<open>jwt.verify\<close> throwing.
\<close>

record payload =
  username :: string
  id :: ObjectId

record jwt =
  jwt_sign :: "payload \<Rightarrow> string \<Rightarrow> string"
  jwt_verify :: "string \<Rightarrow> string \<Rightarrow> payload option"

record Token =
  val :: string

text \<open>\<^verbatim>\<open>login\<close> (lines 186-199 of variant A, 155-168 of variant B).\<close>

definition login :: "jwt \<Rightarrow> string \<Rightarrow> store \<Rightarrow> login_args \<Rightarrow> login_args gql_error + Token" where
  "login j SECRET db args =
     (let user = User_findOne db (login_args.username args)
      in case user of
           None \<Rightarrow> Inl (UserInputError (Text ''wrong credentials'') None)
         | Some u \<Rightarrow>
             if password args \<noteq> ''password'' then
               Inl (UserInputError (Text ''wrong credentials'') None)
             else
               (let userForToken = \<lparr>payload.username = User.username u, id = User.oid u\<rparr>
                in Inr \<lparr>val = jwt_sign j userForToken SECRET\<rparr>))"

text \<open>\<^verbatim>\<open>String.prototype.toLowerCase\<close> on the characters a header value is made of
  (bytes read as Latin-1).\<close>

definition lower_char :: "char \<Rightarrow> char" where
  "lower_char c =
     (let n = (of_char c :: nat)
      in if (65 \<le> n \<and> n \<le> 90) \<or> (192 \<le> n \<and> n \<le> 222 \<and> n \<noteq> 215) then char_of (n + 32)
         else c)"

definition toLowerCase :: "string \<Rightarrow> string" where
  "toLowerCase s = map lower_char s"





section \<open>Example data\<close>

text \<open>Concrete adapters, stores and arguments at which the theorems below are evaluated.
  \<open>accept_all\<close> is a store whose models reject nothing, \<open>reject_books\<close> one whose Book
  model rejects every document; \<open>plain_jwt\<close> is an unsigned codec (the id in unary, a
  separator, the username) that stands in for the library where a concrete one is needed.\<close>

definition accept_all :: adapter where
  "accept_all =
     \<lparr>author_error = (\<lambda>db a. None), book_error = (\<lambda>db b. None),
      user_error = (\<lambda>db u. None), ignoreUndefined = False\<rparr>"

definition reject_books :: adapter where
  "reject_books =
     \<lparr>author_error = (\<lambda>db a. None), book_error = (\<lambda>db b. Some ''Book validation failed''),
      user_error = (\<lambda>db u. None), ignoreUndefined = False\<rparr>"

definition plain_jwt :: jwt where
  "plain_jwt =
     \<lparr>jwt_sign = (\<lambda>p k. replicate (payload.id p) (CHR ''1'') @ CHR ''.'' # payload.username p),
      jwt_verify = (\<lambda>t k.
         if CHR ''.'' \<in> set t then
           Some \<lparr>payload.username = tl (dropWhile (\<lambda>c. c = CHR ''1'') t),
                 id = length (takeWhile (\<lambda>c. c = CHR ''1'') t)\<rparr>
         else None)\<rparr>"

definition empty_world :: world where
  "empty_world =
     \<lparr>database = \<lparr>authors = [], books = [], users = []\<rparr>, next_oid = 0, pubsub = [], in_flight = []\<rparr>"

definition root_user :: User where
  "root_user = \<lparr>User.username = ''root'', favoriteGenre = ''fantasy'', oid = 2\<rparr>"

definition anonymous :: Context where
  "anonymous = \<lparr>currentUser = None\<rparr>"

definition as_root :: Context where
  "as_root = \<lparr>currentUser = Some root_user\<rparr>"

definition the_hobbit :: addBook_args where
  "the_hobbit =
     \<lparr>addBook_args.title = ''The Hobbit'', published = 1937, author = ''Tolkien'',
      genres = [''fantasy'']\<rparr>"


definition austen :: Author where
  "austen = \<lparr>Author.name = ''Austen'', born = None, bookCount = Num 0, oid = 0\<rparr>"

definition tolkien :: Author where
  "tolkien = \<lparr>Author.name = ''Tolkien'', born = None, bookCount = Num 0, oid = 1\<rparr>"

definition two_authors :: world where
  "two_authors =
     \<lparr>database = \<lparr>authors = [austen, tolkien], books = [], users = [root_user]\<rparr>,
      next_oid = 3, pubsub = [], in_flight = []\<rparr>"

definition hobbit_book :: Book where
  "hobbit_book =
     \<lparr>Book.title = ''The Hobbit'', published = 1937, author = RefId 0,
      genres = [''fantasy''], oid = 1\<rparr>"

definition hobbit_store :: store where
  "hobbit_store =
     \<lparr>authors = [\<lparr>Author.name = ''Tolkien'', born = None, bookCount = Undefined, oid = 0\<rparr>],
      books = [hobbit_book], users = []\<rparr>"



section \<open>Predicates on states\<close>

text \<open>Every Book's author field holds the id of an Author of the collection.\<close>

definition references_Author :: "store \<Rightarrow> Book \<Rightarrow> bool" where
  "references_Author db b =
     (case Book.author b of
        RefId i \<Rightarrow> Author_findById db i \<noteq> None
      | RefName s \<Rightarrow> False)"

definition refs_ok :: "store \<Rightarrow> bool" where
  "refs_ok db = list_all (references_Author db) (books db)"

text \<open>Every ObjectId held in the database was drawn from the counter before.\<close>

definition ref_below :: "nat \<Rightarrow> Book \<Rightarrow> bool" where
  "ref_below n b = (case Book.author b of RefId i \<Rightarrow> i < n | RefName s \<Rightarrow> True)"

definition oids_below :: "world \<Rightarrow> bool" where
  "oids_below w =
     (list_all (\<lambda>a. Author.oid a < next_oid w) (authors (database w))
      \<and> list_all (ref_below (next_oid w)) (books (database w)))"

text \<open>The states variant A reaches from the empty one by its mutations, under any
  context and arguments.\<close>

inductive reachableA :: "adapter \<Rightarrow> world \<Rightarrow> bool" for ad :: adapter where
  start: "reachableA ad empty_world"
| addBook: "reachableA ad w \<Longrightarrow> reachableA ad (snd (addBookA ad context w args))"
| editAuthor: "reachableA ad w \<Longrightarrow> reachableA ad (snd (editAuthorA context w eargs))"
| createUser: "reachableA ad w \<Longrightarrow> reachableA ad (snd (createUser ad w uargs))"


section \<open>addBook without an authenticated user\<close>

text \<open>
  Claim C4. When the context carries no current user, \<open>addBook\<close> fails with
  AuthenticationError in both variants and the store is as before: variant A leaves the
  whole process state untouched; variant B has constructed a Book (and drawn an ObjectId
  for it) before the check, but saved nothing, so its database and its channel are
  unchanged and it has issued no write.
\<close>

theorem addBook_unauthenticated:
  assumes "currentUser context = None"
  shows "addBookA ad context w args = (Inl (AuthenticationError ''not authenticated''), w)
       \<and> fst (addBookB ad context w args) = Inl (AuthenticationError ''not authenticated'')
       \<and> database (snd (addBookB ad context w args)) = database w
       \<and> pubsub (snd (addBookB ad context w args)) = pubsub w
       \<and> in_flight (snd (addBookB ad context w args)) = in_flight w"
  using assms by (simp add: addBookA_def addBookB_def new_ObjectId_def)

theorem addBook_unauthenticated_witness:
  "currentUser anonymous = None
   \<and> addBookA accept_all anonymous two_authors the_hobbit
       = (Inl (AuthenticationError ''not authenticated''), two_authors)
   \<and> fst (addBookB accept_all anonymous two_authors the_hobbit)
       = Inl (AuthenticationError ''not authenticated'')
   \<and> database (snd (addBookB accept_all anonymous two_authors the_hobbit))
       = database two_authors
   \<and> pubsub (snd (addBookB accept_all anonymous two_authors the_hobbit)) = pubsub two_authors
   \<and> in_flight (snd (addBookB accept_all anonymous two_authors the_hobbit))
       = in_flight two_authors"
proof -
  have anon: "currentUser anonymous = None"
    by (simp add: anonymous_def)
  show ?thesis
    using anon addBook_unauthenticated [OF anon, of accept_all two_authors the_hobbit]
    by simp
qed

section \<open>editAuthor of variant B and its name argument\<close>

text \<open>
  Claim C10. In variant B the lookup of \<open>editAuthor\<close> reads \<^verbatim>\<open>args.author\<close>, which the
  mutation never receives: two calls in the same state that differ only in the name
  return the same result and leave the same state, whatever the adapter does with an
  undefined filter value.
\<close>

theorem editAuthorB_independent_of_name:
  "editAuthorB ad context w \<lparr>editAuthor_args.name = n1, setBornTo = b\<rparr>
     = editAuthorB ad context w \<lparr>editAuthor_args.name = n2, setBornTo = b\<rparr>"
  by (simp add: editAuthorB_def editAuthor_args_author_def split: option.splits)

section \<open>login\<close>

lemma find_SomeD: "find P xs = Some x \<Longrightarrow> P x \<and> x \<in> set xs"
  by (auto simp: find_Some_iff)

lemma takeWhile_replicate_sep:
  "y \<noteq> x \<Longrightarrow> takeWhile (\<lambda>c. c = x) (replicate n x @ y # ys) = replicate n x"
  by (induction n) simp_all

lemma dropWhile_replicate_sep:
  "y \<noteq> x \<Longrightarrow> dropWhile (\<lambda>c. c = x) (replicate n x @ y # ys) = y # ys"
  by (induction n) simp_all

lemma plain_jwt_roundtrip: "jwt_verify plain_jwt (jwt_sign plain_jwt p k) k = Some p"
  by (cases p) (simp add: plain_jwt_def takeWhile_replicate_sep dropWhile_replicate_sep)

text \<open>
  Claim C8. For a token library in which verifying what was signed with the same secret
  gives the payload back, \<open>login\<close> fails with UserInputError "wrong credentials" exactly
  when no User has the given username or the password is not the fixed value
  \<^verbatim>\<open>password\<close>; otherwise it returns a Token that decodes to the username and the id of
  the User that \<^verbatim>\<open>User.findOne\<close> returned.
\<close>

theorem login_spec:
  assumes roundtrip: "\<And>p. jwt_verify j (jwt_sign j p SECRET) SECRET = Some p"
  shows "((login j SECRET db args = Inl (UserInputError (Text ''wrong credentials'') None))
            = ((\<forall>u\<in>set (users db). User.username u \<noteq> login_args.username args)
               \<or> password args \<noteq> ''password''))
       \<and> ((\<exists>u\<in>set (users db). User.username u = login_args.username args)
            \<and> password args = ''password''
          \<longrightarrow> (\<exists>u t. User_findOne db (login_args.username args) = Some u
                  \<and> u \<in> set (users db)
                  \<and> User.username u = login_args.username args
                  \<and> login j SECRET db args = Inr t
                  \<and> jwt_verify j (val t) SECRET
                      = Some \<lparr>payload.username = login_args.username args, id = User.oid u\<rparr>))"
proof (cases "User_findOne db (login_args.username args)")
  case None
  then have "\<forall>u\<in>set (users db). User.username u \<noteq> login_args.username args"
    by (simp add: User_findOne_def find_None_iff)
  with None show ?thesis
    by (simp add: login_def)
next
  case (Some u)
  then have u: "User.username u = login_args.username args" "u \<in> set (users db)"
    using find_SomeD [of "\<lambda>u. User.username u = login_args.username args" "users db" u]
    by (simp_all add: User_findOne_def)
  show ?thesis
  proof (cases "password args = ''password''")
    case True
    with Some u roundtrip show ?thesis
      by (auto simp: login_def)
  next
    case False
    with Some show ?thesis
      by (simp add: login_def)
  qed
qed

theorem login_spec_witness:
  "(\<forall>p. jwt_verify plain_jwt (jwt_sign plain_jwt p ''s3cret'') ''s3cret'' = Some p)
   \<and> login plain_jwt ''s3cret'' (database two_authors)
        \<lparr>login_args.username = ''root'', password = ''password''\<rparr> = Inr \<lparr>val = ''11.root''\<rparr>
   \<and> jwt_verify plain_jwt ''11.root'' ''s3cret''
        = Some \<lparr>payload.username = ''root'', id = User.oid root_user\<rparr>
   \<and> login plain_jwt ''s3cret'' (database two_authors)
        \<lparr>login_args.username = ''root'', password = ''hunter2''\<rparr>
        = Inl (UserInputError (Text ''wrong credentials'') None)
   \<and> login plain_jwt ''s3cret'' (database two_authors)
        \<lparr>login_args.username = ''nobody'', password = ''password''\<rparr>
        = Inl (UserInputError (Text ''wrong credentials'') None)"
proof -
  have rt: "\<And>p. jwt_verify plain_jwt (jwt_sign plain_jwt p ''s3cret'') ''s3cret'' = Some p"
    by (rule plain_jwt_roundtrip)
  have good: "login plain_jwt ''s3cret'' (database two_authors)
        \<lparr>login_args.username = ''root'', password = ''password''\<rparr> = Inr \<lparr>val = ''11.root''\<rparr>"
    by (simp add: login_def User_findOne_def two_authors_def root_user_def plain_jwt_def
          numeral_2_eq_2)
  show ?thesis
    using rt good
      login_spec [OF rt, of "database two_authors"
        "\<lparr>login_args.username = ''root'', password = ''password''\<rparr>"]
      login_spec [OF rt, of "database two_authors"
        "\<lparr>login_args.username = ''root'', password = ''hunter2''\<rparr>"]
      login_spec [OF rt, of "database two_authors"
        "\<lparr>login_args.username = ''nobody'', password = ''password''\<rparr>"]
    by (simp add: two_authors_def root_user_def)
qed

section \<open>The request context\<close>



lemma bearer_prefix_iff:
  "(\<exists>p t. s = p @ t \<and> toLowerCase p = ''bearer '') = (toLowerCase (take 7 s) = ''bearer '')"
proof
  assume "\<exists>p t. s = p @ t \<and> toLowerCase p = ''bearer ''"
  then obtain p t where s: "s = p @ t" and p: "toLowerCase p = ''bearer ''"
    by blast
  from p have "length (toLowerCase p) = length ''bearer ''"
    by simp
  then have "length p = 7"
    by (simp add: toLowerCase_def)
  with s p show "toLowerCase (take 7 s) = ''bearer ''"
    by simp
next
  assume "toLowerCase (take 7 s) = ''bearer ''"
  then have "s = take 7 s @ drop 7 s \<and> toLowerCase (take 7 s) = ''bearer ''"
    by simp
  then show "\<exists>p t. s = p @ t \<and> toLowerCase p = ''bearer ''"
    by blast
qed



section \<open>allBooks\<close>

lemma Book_find_in_genre: "Book_find_in db ''genre'' vs = []"
  by (simp add: Book_find_in_def Book_get_def in_match_def)

lemma allBooksA_unfiltered:
  "\<exists>views. allBooksA db \<lparr>allBooks_args.author = None, genre = None\<rparr> = Inr views
           \<and> map (\<lambda>v. (BookView.oid v, BookView.title v, BookView.published v, BookView.genres v))
                views
               = map (\<lambda>b. (Book.oid b, Book.title b, Book.published b, Book.genres b)) (books db)"
  by (simp add: allBooksA_def truthy_def populate_def view_def comp_def)

lemma allBooksB_unfiltered:
  "allBooksB db \<lparr>allBooks_args.author = None, genre = None\<rparr> = Inr (books db)"
  by (simp add: allBooksB_def truthy_def)

text \<open>
  Claim C2 (the code diverges). With an author argument, alone or together with a genre,
  both variants evaluate the undeclared \<^verbatim>\<open>books\<close> and throw a ReferenceError instead of
  returning the matching Books, whatever the store holds. With a genre alone, variant B
  throws a TypeError (\<^verbatim>\<open>Book.inventory\<close> is undefined) and variant A queries the path
  \<^verbatim>\<open>genre\<close>, which no Book has, so a store whose only Book has the genre "fantasy"
  answers the filter "fantasy" with the empty list. Only the unfiltered query returns what
  the claim says (\<open>allBooksA_unfiltered\<close>, \<open>allBooksB_unfiltered\<close>).
\<close>

theorem allBooks_filters_diverge:
  "allBooksA db \<lparr>allBooks_args.author = Some ''Tolkien'', genre = None\<rparr>
     = Inl (ReferenceError ''books'')
   \<and> allBooksB db \<lparr>allBooks_args.author = Some ''Tolkien'', genre = None\<rparr>
     = Inl (ReferenceError ''books'')
   \<and> allBooksA db \<lparr>allBooks_args.author = Some ''Tolkien'', genre = Some ''fantasy''\<rparr>
     = Inl (ReferenceError ''books'')
   \<and> allBooksB db \<lparr>allBooks_args.author = Some ''Tolkien'', genre = Some ''fantasy''\<rparr>
     = Inl (ReferenceError ''books'')
   \<and> allBooksB db \<lparr>allBooks_args.author = None, genre = Some ''fantasy''\<rparr>
     = Inl (TypeError ''find'')
   \<and> books hobbit_store = [hobbit_book]
   \<and> ''fantasy'' \<in> set (Book.genres hobbit_book)
   \<and> allBooksA hobbit_store \<lparr>allBooks_args.author = None, genre = Some ''fantasy''\<rparr> = Inr []"
  by (simp add: allBooksA_def allBooksB_def truthy_def Book_find_in_genre hobbit_store_def
        hobbit_book_def)

section \<open>editAuthor\<close>

lemma editAuthorA_returns_no_Author: "fst (editAuthorA context w args) \<noteq> Inr (Some a)"
  by (simp add: editAuthorA_def Let_def split: list.splits)

lemma editAuthorA_unknown_name:
  assumes "currentUser context \<noteq> None"
    and "\<forall>a\<in>set (authors (database w)). Author.name a \<noteq> editAuthor_args.name args"
  shows "editAuthorA context w args
           = (Inl (UserInputError (MessageOf (TypeError ''name'')) (Some args)), w)"
proof -
  from assms(2) have "Author_find_in (database w) [editAuthor_args.name args] = []"
    by (simp add: Author_find_in_def filter_empty_conv)
  with assms(1) show ?thesis
    by (auto simp: editAuthorA_def truthy_array_def)
qed

lemma editAuthorB_null:
  assumes "currentUser context \<noteq> None" and "\<not> ignoreUndefined ad"
  shows "editAuthorB ad context w args = (Inr None, w)"
  using assms by (auto simp: editAuthorB_def editAuthor_args_author_def Author_findOne_def)

text \<open>
  Claim C3 (the code diverges), in a store that holds the Authors Austen and Tolkien, for
  an authenticated caller.
  \<^item> Variant A, a name that no Author has: the resolver fails with a UserInputError (the
    empty result array is truthy, and reading \<^verbatim>\<open>author[0].name\<close> throws) where the claim
    says it returns null.
  \<^item> Variant A, the name Tolkien: \<^verbatim>\<open>born\<close> of Tolkien is set and nothing else changes, but
    the resolver returns nothing (null) where the claim says the updated Author.
  \<^item> Variant B, the name Tolkien: whatever the adapter does, the resolver does not return
    the updated Tolkien, and the stored Tolkien is as before, when the resolver returns
    and also once the write it may have issued has landed.
\<close>

theorem editAuthor_diverges:
  "editAuthorA as_root two_authors \<lparr>editAuthor_args.name = ''Nobody'', setBornTo = 1892\<rparr>
     = (Inl (UserInputError (MessageOf (TypeError ''name''))
               (Some \<lparr>editAuthor_args.name = ''Nobody'', setBornTo = 1892\<rparr>)),
        two_authors)
   \<and> fst (editAuthorA as_root two_authors \<lparr>editAuthor_args.name = ''Tolkien'', setBornTo = 1892\<rparr>)
     = Inr None
   \<and> authors (database (snd (editAuthorA as_root two_authors
        \<lparr>editAuthor_args.name = ''Tolkien'', setBornTo = 1892\<rparr>)))
     = [austen, tolkien\<lparr>born := Some 1892\<rparr>]
   \<and> fst (editAuthorB ad as_root two_authors \<lparr>editAuthor_args.name = ''Tolkien'', setBornTo = 1892\<rparr>)
     \<noteq> Inr (Some (tolkien\<lparr>born := Some 1892\<rparr>))
   \<and> Author_findOne ad (database (snd (editAuthorB ad as_root two_authors
        \<lparr>editAuthor_args.name = ''Tolkien'', setBornTo = 1892\<rparr>))) (Some ''Tolkien'')
     = Some tolkien
   \<and> Author_findOne ad (database (settle ad (snd (editAuthorB ad as_root two_authors
        \<lparr>editAuthor_args.name = ''Tolkien'', setBornTo = 1892\<rparr>)))) (Some ''Tolkien'')
     = Some tolkien"
proof -
  have A_missing:
    "editAuthorA as_root two_authors \<lparr>editAuthor_args.name = ''Nobody'', setBornTo = 1892\<rparr>
     = (Inl (UserInputError (MessageOf (TypeError ''name''))
               (Some \<lparr>editAuthor_args.name = ''Nobody'', setBornTo = 1892\<rparr>)),
        two_authors)"
    by (simp add: editAuthorA_def as_root_def two_authors_def Author_find_in_def truthy_array_def
          austen_def tolkien_def)
  have A_found:
    "editAuthorA as_root two_authors \<lparr>editAuthor_args.name = ''Tolkien'', setBornTo = 1892\<rparr>
     = (Inr None,
        two_authors\<lparr>database := (database two_authors)\<lparr>authors := [austen, tolkien\<lparr>born := Some 1892\<rparr>]\<rparr>\<rparr>)"
    by (simp add: editAuthorA_def as_root_def two_authors_def Author_find_in_def truthy_array_def
          austen_def tolkien_def Author_findByIdAndUpdate_def)
  have B: "editAuthorB ad as_root two_authors \<lparr>editAuthor_args.name = ''Tolkien'', setBornTo = 1892\<rparr>
     = (if ignoreUndefined ad then
          (Inr (Some (austen\<lparr>born := Some 1892\<rparr>)),
           two_authors\<lparr>in_flight := [SetBorn (austen\<lparr>born := Some 1892\<rparr>)]\<rparr>)
        else (Inr None, two_authors))"
    by (simp add: editAuthorB_def editAuthor_args_author_def as_root_def Author_findOne_def
          two_authors_def unawaited_def Let_def)
  have landed: "authors (land ad (database two_authors) (SetBorn (austen\<lparr>born := Some 1892\<rparr>)))
                  = [austen, tolkien]
              \<or> authors (land ad (database two_authors) (SetBorn (austen\<lparr>born := Some 1892\<rparr>)))
                  = [austen\<lparr>born := Some 1892\<rparr>, tolkien]"
    by (simp add: land_def save_found_Author_def two_authors_def austen_def
          split: option.splits)
  have quiet: "settle ad two_authors = two_authors"
    by (simp add: settle_def two_authors_def)
  have names: "Author.name austen \<noteq> ''Tolkien''" "Author.name tolkien = ''Tolkien''"
    "austen\<lparr>born := Some 1892\<rparr> \<noteq> tolkien\<lparr>born := Some 1892\<rparr>"
    by (simp_all add: austen_def tolkien_def)
  have B_store: "Author_findOne ad (database (snd (editAuthorB ad as_root two_authors
        \<lparr>editAuthor_args.name = ''Tolkien'', setBornTo = 1892\<rparr>))) (Some ''Tolkien'')
     = Some tolkien"
    unfolding B using names by (simp add: Author_findOne_def two_authors_def)
  have B_settled: "Author_findOne ad (database (settle ad (snd (editAuthorB ad as_root two_authors
        \<lparr>editAuthor_args.name = ''Tolkien'', setBornTo = 1892\<rparr>)))) (Some ''Tolkien'')
     = Some tolkien"
  proof (cases "ignoreUndefined ad")
    case True
    with landed names show ?thesis
      unfolding B by (auto simp: settle_def Author_findOne_def two_authors_def)
  next
    case False
    with names quiet show ?thesis
      unfolding B by (simp add: Author_findOne_def two_authors_def)
  qed
  have B_result: "fst (editAuthorB ad as_root two_authors \<lparr>editAuthor_args.name = ''Tolkien'', setBornTo = 1892\<rparr>)
     \<noteq> Inr (Some (tolkien\<lparr>born := Some 1892\<rparr>))"
    unfolding B using names by simp
  from A_missing A_found B_store B_settled B_result show ?thesis
    by simp
qed

section \<open>Lookups, counts and the two state predicates\<close>

lemma find_snoc:
  "find P (xs @ [y]) = (case find P xs of None \<Rightarrow> (if P y then Some y else None) | Some x \<Rightarrow> Some x)"
  by (induction xs) simp_all

lemma update_first_snoc:
  "\<forall>x\<in>set xs. \<not> p x \<Longrightarrow> p y \<Longrightarrow> update_first p f (xs @ [y]) = xs @ [f y]"
  by (induction xs) simp_all


lemma Author_findById_None_iff:
  "(Author_findById db i = None) = (i \<notin> Author.oid ` set (authors db))"
  by (auto simp: Author_findById_def find_None_iff)

lemma references_Author_iff:
  "references_Author db b = (\<exists>i. Book.author b = RefId i \<and> i \<in> Author.oid ` set (authors db))"
  by (cases "Book.author b") (simp_all add: references_Author_def Author_findById_None_iff)

lemma refs_ok_iff:
  "refs_ok db = (\<forall>b\<in>set (books db). \<exists>i. Book.author b = RefId i \<and> i \<in> Author.oid ` set (authors db))"
  by (simp add: refs_ok_def list_all_iff references_Author_iff)

lemma refs_ok_mono:
  assumes "refs_ok db" and "books db' = books db" and "set (authors db) \<subseteq> set (authors db')"
  shows "refs_ok db'"
  using assms unfolding refs_ok_iff by (metis image_mono subsetD)

lemma map_oid_update_first:
  "(\<And>x. p x \<Longrightarrow> Author.oid (f x) = Author.oid x) \<Longrightarrow>
     map Author.oid (update_first p f xs) = map Author.oid xs"
  by (induction xs) simp_all

lemma oid_set_update_first:
  assumes "\<And>x. p x \<Longrightarrow> Author.oid (f x) = Author.oid x"
  shows "Author.oid ` set (update_first p f xs) = Author.oid ` set xs"
proof -
  have "set (map Author.oid (update_first p f xs)) = set (map Author.oid xs)"
    using assms by (simp only: map_oid_update_first)
  then show ?thesis
    by simp
qed

lemma oids_below_iff:
  "oids_below w =
     ((\<forall>a\<in>set (authors (database w)). Author.oid a < next_oid w)
      \<and> (\<forall>b\<in>set (books (database w)). \<forall>i. Book.author b = RefId i \<longrightarrow> i < next_oid w))"
proof -
  have "ref_below n b = (\<forall>i. Book.author b = RefId i \<longrightarrow> i < n)" for n b
    by (cases "Book.author b") (simp_all add: ref_below_def)
  then show ?thesis
    by (simp add: oids_below_def list_all_iff)
qed

lemma oids_below_update:
  assumes below: "oids_below w"
    and ids: "Author.oid ` set (authors db') = Author.oid ` set (authors (database w))"
    and books: "books db' = books (database w)"
  shows "oids_below (w\<lparr>database := db'\<rparr>)"
proof -
  have "Author.oid a < next_oid w" if "a \<in> set (authors db')" for a
  proof -
    from that have "Author.oid a \<in> Author.oid ` set (authors (database w))"
      using ids by blast
    then obtain a' where "a' \<in> set (authors (database w))" "Author.oid a = Author.oid a'"
      by blast
    with below show ?thesis
      by (simp add: oids_below_iff)
  qed
  with below books show ?thesis
    by (simp add: oids_below_iff)
qed




section \<open>addBook of variant A\<close>

lemma find_or_create_AuthorA_frame:
  assumes "find_or_create_AuthorA ad w args = (r, w1)"
  shows "books (database w1) = books (database w)"
    and "users (database w1) = users (database w)"
    and "pubsub w1 = pubsub w"
    and "set (authors (database w)) \<subseteq> set (authors (database w1))"
  using assms
  by (auto simp: find_or_create_AuthorA_def new_ObjectId_def save_new_Author_def Let_def
        split: option.splits)

lemma find_or_create_AuthorA_Inr:
  assumes "find_or_create_AuthorA ad w args = (Inr a, w1)"
  shows "a \<in> set (authors (database w1))" and "Author.name a = addBook_args.author args"
proof -
  have "a \<in> set (authors (database w1)) \<and> Author.name a = addBook_args.author args"
  proof (cases "Author_findOne ad (database w) (Some (addBook_args.author args))")
    case None
    with assms show ?thesis
      by (auto simp: find_or_create_AuthorA_def new_ObjectId_def save_new_Author_def Let_def
            split: option.splits)
  next
    case (Some found)
    then have "found \<in> set (authors (database w))" "Author.name found = addBook_args.author args"
      using find_SomeD [of "\<lambda>a. Author.name a = addBook_args.author args" "authors (database w)" found]
      by (simp_all add: Author_findOne_def)
    with Some assms show ?thesis
      by (auto simp: find_or_create_AuthorA_def)
  qed
  then show "a \<in> set (authors (database w1))" and "Author.name a = addBook_args.author args"
    by simp_all
qed

lemma find_or_create_AuthorA_oids_below:
  assumes "find_or_create_AuthorA ad w args = (r, w1)" and "oids_below w"
  shows "oids_below w1" and "next_oid w \<le> next_oid w1"
proof -
  have "oids_below w1 \<and> next_oid w \<le> next_oid w1"
    using assms
    by (fastforce simp: find_or_create_AuthorA_def new_ObjectId_def save_new_Author_def Let_def
          oids_below_iff split: option.splits)
  then show "oids_below w1" and "next_oid w \<le> next_oid w1"
    by simp_all
qed

text \<open>What an authenticated \<open>addBook\<close> of variant A does: a failure is a UserInputError
  that carries the arguments, with no Book stored and nothing published; a success stores
  a Book made of the arguments that refers to an Author of that name by id, and returns
  and publishes that Book with the author's name attached (and the author's identifier
  overwritten).\<close>

lemma addBookA_outcome:
  assumes auth: "currentUser context \<noteq> None"
    and res: "addBookA ad context w args = (r, w')"
  shows "(\<forall>e. r = Inl e \<longrightarrow>
            (\<exists>f. e = UserInputError (MessageOf f) (Some args))
            \<and> books (database w') = books (database w) \<and> pubsub w' = pubsub w)
       \<and> (\<forall>v. r = Inr v \<longrightarrow>
            (\<exists>b a. books (database w') = books (database w) @ [b]
               \<and> v = view (Overwritten (addBook_args.author args)) b
               \<and> pubsub w' = pubsub w @ [(''BOOK_ADDED'', v)]
               \<and> Book.title b = addBook_args.title args
               \<and> Book.published b = addBook_args.published args
               \<and> Book.genres b = addBook_args.genres args
               \<and> a \<in> set (authors (database w'))
               \<and> Author.name a = addBook_args.author args
               \<and> Book.author b = RefId (Author.oid a)))"
proof -
  obtain q w1 where foc: "find_or_create_AuthorA ad w args = (q, w1)"
    by (cases "find_or_create_AuthorA ad w args")
  note frame = find_or_create_AuthorA_frame [OF foc]
  show ?thesis
  proof (cases q)
    case (Inl e)
    with auth res foc frame show ?thesis
      by (auto simp: addBookA_def)
  next
    case (Inr isAuthor)
    with foc have a: "isAuthor \<in> set (authors (database w1))"
      "Author.name isAuthor = addBook_args.author args"
      using find_or_create_AuthorA_Inr by simp_all
    show ?thesis
    proof (cases "book_error ad (database w1)
                    \<lparr>Book.title = addBook_args.title args,
                     published = addBook_args.published args,
                     author = RefId (Author.oid isAuthor),
                     genres = addBook_args.genres args, oid = next_oid w1\<rparr>")
      case None
      with auth res foc frame Inr a show ?thesis
        by (auto simp: addBookA_def new_ObjectId_def save_new_Book_def Let_def
              intro!: exI [of _ isAuthor])
    next
      case (Some m)
      with auth res foc frame Inr show ?thesis
        by (auto simp: addBookA_def new_ObjectId_def save_new_Book_def Let_def)
    qed
  qed
qed



text \<open>Both predicates hold in every state that variant A reaches.\<close>

lemma addBookA_refs_ok:
  assumes "refs_ok (database w)"
  shows "refs_ok (database (snd (addBookA ad context w args)))"
proof (cases "currentUser context = None")
  case True
  with assms show ?thesis
    by (simp add: addBookA_def)
next
  case False
  obtain r w1 where foc: "find_or_create_AuthorA ad w args = (r, w1)"
    by (cases "find_or_create_AuthorA ad w args")
  have keep: "refs_ok (database w1)"
    using assms find_or_create_AuthorA_frame(1,4) [OF foc] by (rule refs_ok_mono)
  show ?thesis
  proof (cases r)
    case (Inl e)
    with False foc keep show ?thesis
      by (auto simp: addBookA_def)
  next
    case (Inr isAuthor)
    with foc have mem: "isAuthor \<in> set (authors (database w1))"
      using find_or_create_AuthorA_Inr(1) by simp
    with False foc keep Inr show ?thesis
      by (auto simp: addBookA_def new_ObjectId_def save_new_Book_def refs_ok_iff Let_def
            split: option.splits)
  qed
qed

lemma editAuthorA_refs_ok:
  assumes "refs_ok (database w)"
  shows "refs_ok (database (snd (editAuthorA context w args)))"
proof -
  have same: "Author.oid ` set (authors (Author_findByIdAndUpdate (database w) i n b))
                = Author.oid ` set (authors (database w))" for i n b
    by (simp add: Author_findByIdAndUpdate_def oid_set_update_first)
  have books: "books (Author_findByIdAndUpdate (database w) i n b) = books (database w)" for i n b
    by (simp add: Author_findByIdAndUpdate_def)
  from assms show ?thesis
    by (auto simp: editAuthorA_def refs_ok_iff same books Let_def split: list.splits)
qed

lemma createUser_refs_ok:
  assumes "refs_ok (database w)"
  shows "refs_ok (database (snd (createUser ad w args)))"
  using assms
  by (auto simp: createUser_def new_ObjectId_def save_new_User_def refs_ok_iff Let_def
        split: option.splits)

lemma reachableA_refs_ok: "reachableA ad w \<Longrightarrow> refs_ok (database w)"
proof (induction rule: reachableA.induct)
  case start
  show ?case
    by (simp add: refs_ok_def empty_world_def)
next
  case (addBook w ctx args)
  then show ?case
    by (simp add: addBookA_refs_ok)
next
  case (editAuthor w ctx eargs)
  then show ?case
    by (simp add: editAuthorA_refs_ok)
next
  case (createUser w uargs)
  then show ?case
    by (simp add: createUser_refs_ok)
qed

lemma addBookA_oids_below:
  assumes "oids_below w"
  shows "oids_below (snd (addBookA ad context w args))"
proof (cases "currentUser context = None")
  case True
  with assms show ?thesis
    by (simp add: addBookA_def)
next
  case False
  obtain r w1 where foc: "find_or_create_AuthorA ad w args = (r, w1)"
    by (cases "find_or_create_AuthorA ad w args")
  have keep: "oids_below w1"
    using foc assms by (rule find_or_create_AuthorA_oids_below)
  show ?thesis
  proof (cases r)
    case (Inl e)
    with False foc keep show ?thesis
      by (auto simp: addBookA_def)
  next
    case (Inr isAuthor)
    with foc have mem: "isAuthor \<in> set (authors (database w1))"
      using find_or_create_AuthorA_Inr(1) by simp
    with keep have "Author.oid isAuthor < next_oid w1"
      by (simp add: oids_below_iff)
    with False foc keep Inr show ?thesis
      by (fastforce simp: addBookA_def new_ObjectId_def save_new_Book_def oids_below_iff Let_def
            split: option.splits)
  qed
qed

lemma editAuthorA_oids_below:
  assumes "oids_below w"
  shows "oids_below (snd (editAuthorA context w args))"
proof -
  have "oids_below (w\<lparr>database := Author_findByIdAndUpdate (database w) i n b\<rparr>)" for i n b
    using assms
    by (rule oids_below_update) (simp_all add: Author_findByIdAndUpdate_def oid_set_update_first)
  with assms show ?thesis
    by (simp add: editAuthorA_def Let_def split: list.splits)
qed

lemma createUser_oids_below:
  assumes "oids_below w"
  shows "oids_below (snd (createUser ad w args))"
  using assms
  by (fastforce simp: createUser_def new_ObjectId_def save_new_User_def oids_below_iff Let_def
        split: option.splits)

lemma reachableA_oids_below: "reachableA ad w \<Longrightarrow> oids_below w"
proof (induction rule: reachableA.induct)
  case start
  show ?case
    by (simp add: oids_below_def empty_world_def)
next
  case (addBook w ctx args)
  then show ?case
    by (simp add: addBookA_oids_below)
next
  case (editAuthor w ctx eargs)
  then show ?case
    by (simp add: editAuthorA_oids_below)
next
  case (createUser w uargs)
  then show ?case
    by (simp add: createUser_oids_below)
qed

section \<open>addBook of variant B\<close>

lemma addBookB_never_fails:
  "currentUser context \<noteq> None \<Longrightarrow>
     fst (addBookB ad context w args)
       = Inr \<lparr>Book.title = addBook_args.title args, published = addBook_args.published args,
              author = RefName (addBook_args.author args), genres = addBook_args.genres args,
              oid = next_oid w\<rparr>"
  by (auto simp: addBookB_def new_ObjectId_def Let_def)

text \<open>What the authenticated \<open>addBook\<close> of variant B leaves when it returns: the database as
  it was, and two writes in flight.\<close>

lemma addBookB_issues:
  assumes "currentUser context \<noteq> None"
  shows "database (snd (addBookB ad context w args)) = database w"
    and "in_flight (snd (addBookB ad context w args))
           = in_flight w @
               [case Author_findOne ad (database w) (Some (addBook_args.author args)) of
                  None \<Rightarrow>
                    InsertAuthor \<lparr>Author.name = addBook_args.author args, born = None,
                                  bookCount = Num 1, oid = Suc (next_oid w)\<rparr>
                | Some isAuthor \<Rightarrow>
                    SetBookCount (isAuthor\<lparr>bookCount := plus_one (bookCount isAuthor)\<rparr>),
                InsertBook \<lparr>Book.title = addBook_args.title args,
                            published = addBook_args.published args,
                            author = RefName (addBook_args.author args),
                            genres = addBook_args.genres args, oid = next_oid w\<rparr>]"
  using assms
  by (auto simp: addBookB_def count_AuthorB_def new_ObjectId_def unawaited_def Let_def
        split: option.splits)

lemma land_books:
  "books (land ad db wr) = books db
   \<or> (\<exists>b. wr = InsertBook b \<and> books (land ad db wr) = books db @ [b])"
  by (cases wr)
    (auto simp: land_def save_new_Author_def save_found_Author_def save_new_Book_def
       split: option.splits)

lemma land_authors_InsertBook: "authors (land ad db (InsertBook b)) = authors db"
  by (auto simp: land_def save_new_Book_def split: option.splits)

lemma land_books_of:
  "books_of (land ad db (InsertAuthor x)) a = books_of db a"
  "books_of (land ad db (SetBookCount x)) a = books_of db a"
  "books_of (land ad db (SetBorn x)) a = books_of db a"
  "Book.author b = RefName n \<Longrightarrow> books_of (land ad db (InsertBook b)) a = books_of db a"
  by (auto simp: land_def save_new_Author_def save_found_Author_def save_new_Book_def
        books_of_def split: option.splits)

text \<open>No \<open>addBook\<close> of variant B changes the number of Books that reference an Author, also
  once its writes have landed.\<close>

lemma addBookB_books_of:
  assumes quiet: "in_flight w = []"
  shows "books_of (database (settle ad (snd (addBookB ad context w args)))) a
           = books_of (database w) a"
proof (cases "currentUser context = None")
  case True
  with quiet show ?thesis
    by (simp add: addBookB_def new_ObjectId_def settle_def)
next
  case False
  note issued = addBookB_issues [OF False, of ad w args]
  show ?thesis
    unfolding settle_def using quiet
    by (simp add: issued land_books_of split: option.splits)
qed

text \<open>
  Claim C7 (the code diverges in variant B). With a Book model that rejects every
  document, the authenticated \<open>addBook\<close> of variant B still returns the Book and throws
  nothing: \<^verbatim>\<open>book.save()\<close> is not awaited, so the rejection never reaches the
  \<^verbatim>\<open>catch\<close>. When the writes it left in flight have landed, no Book is stored, while the
  Author has been created with count 1. (\<open>addBookB_never_fails\<close>: for every adapter the
  authenticated call returns the Book. Variant A fails with a UserInputError when a save
  is rejected, \<open>addBookA_outcome\<close>.)
\<close>

theorem addBookB_swallows_rejection:
  "book_error reject_books db b = Some ''Book validation failed''
   \<and> addBookB reject_books as_root empty_world the_hobbit
     = (Inr \<lparr>Book.title = ''The Hobbit'', published = 1937, author = RefName ''Tolkien'',
             genres = [''fantasy''], oid = 0\<rparr>,
        \<lparr>database = \<lparr>authors = [], books = [], users = []\<rparr>,
         next_oid = 2, pubsub = [],
         in_flight =
           [InsertAuthor \<lparr>Author.name = ''Tolkien'', born = None, bookCount = Num 1, oid = 1\<rparr>,
            InsertBook \<lparr>Book.title = ''The Hobbit'', published = 1937,
                        author = RefName ''Tolkien'', genres = [''fantasy''], oid = 0\<rparr>]\<rparr>)
   \<and> settle reject_books (snd (addBookB reject_books as_root empty_world the_hobbit))
     = \<lparr>database =
          \<lparr>authors = [\<lparr>Author.name = ''Tolkien'', born = None, bookCount = Num 1, oid = 1\<rparr>],
           books = [], users = []\<rparr>,
        next_oid = 2, pubsub = [], in_flight = []\<rparr>"
  by (simp add: addBookB_def count_AuthorB_def new_ObjectId_def reject_books_def as_root_def
        empty_world_def the_hobbit_def Author_findOne_def save_new_Author_def save_new_Book_def
        unawaited_def settle_def land_def Let_def)

text \<open>
  Claim C1 (the code diverges in variant B). After one authenticated \<open>addBook\<close> on the
  empty store, once its writes have landed, \<open>allAuthors\<close> of variant B reports Tolkien with
  \<^verbatim>\<open>bookCount\<close> 1, while the number of Books whose author reference is Tolkien's id is 0:
  the Book was built from \<^verbatim>\<open>{ ...args }\<close>, so its author is the name, not the id. This is
  so whether the store accepts that Book or rejects it. (\<open>addBookB_books_of\<close>: no call of
  variant B changes the number of Books that reference an Author. Variant A is right in
  every store, \<open>allAuthorsA_bookCount\<close>.)
\<close>

theorem bookCount_drifts_in_variant_B:
  "allAuthorsB (database (settle accept_all
       (snd (addBookB accept_all as_root empty_world the_hobbit))))
     = [\<lparr>Author.name = ''Tolkien'', born = None, bookCount = Num 1, oid = 1\<rparr>]
   \<and> books_of (database (settle accept_all
       (snd (addBookB accept_all as_root empty_world the_hobbit))))
        \<lparr>Author.name = ''Tolkien'', born = None, bookCount = Num 1, oid = 1\<rparr> = 0
   \<and> allAuthorsB (database (settle reject_books
       (snd (addBookB reject_books as_root empty_world the_hobbit))))
     = [\<lparr>Author.name = ''Tolkien'', born = None, bookCount = Num 1, oid = 1\<rparr>]
   \<and> books_of (database (settle reject_books
       (snd (addBookB reject_books as_root empty_world the_hobbit))))
        \<lparr>Author.name = ''Tolkien'', born = None, bookCount = Num 1, oid = 1\<rparr> = 0"
  by (simp add: addBookB_def count_AuthorB_def new_ObjectId_def accept_all_def reject_books_def
        as_root_def empty_world_def the_hobbit_def Author_findOne_def save_new_Author_def
        save_new_Book_def unawaited_def settle_def land_def allAuthorsB_def books_of_def Let_def)

text \<open>
  Claim C5 (the code diverges in variant B). In a store that accepts every document, the
  authenticated \<open>addBook\<close> of variant B on the empty store succeeds and, once its writes
  have landed, a Book is stored whose author field is the string "Tolkien", not the id of
  the Author it created: the state reached violates \<open>refs_ok\<close>. In a store that rejects the
  Book the call succeeds all the same and no Book at all is stored. (Variant A keeps
  \<open>refs_ok\<close> in every state it reaches, \<open>reachableA_refs_ok\<close>.)
\<close>

theorem addBookB_stores_name_as_reference:
  "fst (addBookB accept_all as_root empty_world the_hobbit)
     = Inr \<lparr>Book.title = ''The Hobbit'', published = 1937, author = RefName ''Tolkien'',
            genres = [''fantasy''], oid = 0\<rparr>
   \<and> books (database (settle accept_all
        (snd (addBookB accept_all as_root empty_world the_hobbit))))
     = [\<lparr>Book.title = ''The Hobbit'', published = 1937, author = RefName ''Tolkien'',
         genres = [''fantasy''], oid = 0\<rparr>]
   \<and> authors (database (settle accept_all
        (snd (addBookB accept_all as_root empty_world the_hobbit))))
     = [\<lparr>Author.name = ''Tolkien'', born = None, bookCount = Num 1, oid = 1\<rparr>]
   \<and> \<not> refs_ok (database (settle accept_all
        (snd (addBookB accept_all as_root empty_world the_hobbit))))
   \<and> fst (addBookB reject_books as_root empty_world the_hobbit)
     = Inr \<lparr>Book.title = ''The Hobbit'', published = 1937, author = RefName ''Tolkien'',
            genres = [''fantasy''], oid = 0\<rparr>
   \<and> books (database (settle reject_books
        (snd (addBookB reject_books as_root empty_world the_hobbit)))) = []"
  by (simp add: addBookB_def count_AuthorB_def new_ObjectId_def accept_all_def reject_books_def
        as_root_def empty_world_def the_hobbit_def Author_findOne_def save_new_Author_def
        save_new_Book_def unawaited_def settle_def land_def refs_ok_def references_Author_def
        Let_def)

section \<open>The Tolkien scenario\<close>


text \<open>Variant B, when the writes of each call have landed before the next operation and
  the store accepts the Tolkien document with count 1 and then with count 2.\<close>

lemma scenario_B_settled:
  assumes auth: "currentUser context \<noteq> None"
    and none: "\<forall>a\<in>set (authors (database w)). Author.name a \<noteq> ''Tolkien''"
    and fresh: "oids_below w"
    and quiet: "in_flight w = []"
    and w1: "w1 = settle ad (snd (addBookB ad context w the_hobbit))"
    and acc1: "author_error ad (database w)
                 \<lparr>Author.name = ''Tolkien'', born = None, bookCount = Num 1,
                   oid = Suc (next_oid w)\<rparr> = None"
    and second: "addBook_args.author args2 = ''Tolkien''"
    and w2: "w2 = settle ad (snd (addBookB ad context w1 args2))"
    and acc2: "author_error ad (database w1)
                 \<lparr>Author.name = ''Tolkien'', born = None, bookCount = Num 2,
                   oid = Suc (next_oid w)\<rparr> = None"
  shows "filter (\<lambda>a. Author.name a = ''Tolkien'') (allAuthorsB (database w1))
           = [\<lparr>Author.name = ''Tolkien'', born = None, bookCount = Num 1, oid = Suc (next_oid w)\<rparr>]"
    and "filter (\<lambda>a. Author.name a = ''Tolkien'') (allAuthorsB (database w2))
           = [\<lparr>Author.name = ''Tolkien'', born = None, bookCount = Num 2, oid = Suc (next_oid w)\<rparr>]"
proof -
  let ?T = "\<lparr>Author.name = ''Tolkien'', born = None, bookCount = Num 1, oid = Suc (next_oid w)\<rparr>"
  have hob: "addBook_args.author the_hobbit = ''Tolkien''"
    by (simp add: the_hobbit_def)
  have absent: "find (\<lambda>a. Author.name a = ''Tolkien'') (authors (database w)) = None"
    using none by (simp add: find_None_iff)
  have others: "filter (\<lambda>a. Author.name a = ''Tolkien'') (authors (database w)) = []"
    using none by (simp add: filter_empty_conv)
  have as1: "authors (database w1) = authors (database w) @ [?T]"
    unfolding w1 settle_def using quiet absent acc1
    by (simp add: addBookB_issues [OF auth] Author_findOne_def hob land_authors_InsertBook)
      (simp add: land_def save_new_Author_def)
  have quiet1: "in_flight w1 = []"
    by (simp add: w1 settle_def)
  show "filter (\<lambda>a. Author.name a = ''Tolkien'') (allAuthorsB (database w1)) = [?T]"
    by (simp add: allAuthorsB_def as1 others)
  have found: "Author_findOne ad (database w1) (Some (addBook_args.author args2)) = Some ?T"
    by (simp add: Author_findOne_def as1 second find_snoc absent)
  have other_ids: "\<forall>x\<in>set (authors (database w)). Author.oid x \<noteq> Suc (next_oid w)"
    using fresh by (auto simp: oids_below_iff)
  have as2: "authors (database w2)
               = authors (database w) @ [?T\<lparr>bookCount := Num 2\<rparr>]"
    unfolding w2 settle_def using quiet1 found acc2 other_ids
    by (simp add: addBookB_issues [OF auth] land_authors_InsertBook)
      (simp add: land_def save_found_Author_def as1 update_first_snoc)
  show "filter (\<lambda>a. Author.name a = ''Tolkien'') (allAuthorsB (database w2))
           = [\<lparr>Author.name = ''Tolkien'', born = None, bookCount = Num 2, oid = Suc (next_oid w)\<rparr>]"
    by (simp add: allAuthorsB_def as2 others)
qed




end
